theory Spec2Isabelle
  imports Main
begin

section \<open>The admin dashboard of the to-do application\<close>

text \<open>
  A shallow embedding of \<^verbatim>\<open>src/frontend/login_Api/src/AdminDashboard.jsx\<close>: one React
  component that lists the users of the application, changes a user's role, deletes a
  user or opens a user's to-do list. The component state is a record, every handler is a
  function from the state before to the state after, the outcome of a network call is
  an input of the handler, and the requests a handler sends are returned beside the
  state.
\<close>

subsection \<open>Role hierarchy\<close>

text \<open>
  Roles are JavaScript strings. \<^verbatim>\<open>availableRoles\<close> is the array of line 14 and
  \<^verbatim>\<open>ROLE_LEVELS\<close> the object literal of lines 18 to 24: its own five properties.
\<close>

definition availableRoles :: "string list" where
  "availableRoles = [''user'', ''moderator'', ''admin'', ''superAdmin'', ''manager'']"

definition ROLE_LEVELS :: "string \<Rightarrow> nat option" where
  "ROLE_LEVELS =
     map_of [(''user'', 0), (''moderator'', 1), (''admin'', 2), (''superAdmin'', 3),
             (''manager'', 4)]"

text \<open>
  The values a read \<^verbatim>\<open>ROLE_LEVELS[key]\<close> can yield: a level, \<^verbatim>\<open>undefined\<close>, or a
  member that the object inherits from \<^verbatim>\<open>Object.prototype\<close>, which is a built-in
  function (known by its name) or, for \<^verbatim>\<open>__proto__\<close>, the prototype object itself.
\<close>

datatype js_object = Function string | ObjectPrototype

datatype js_value = JNumber nat | JUndefined | JObject js_object

text \<open>
  The properties of \<^verbatim>\<open>Object.prototype\<close> in ECMAScript. The function behind
  \<^verbatim>\<open>constructor\<close> is \<^verbatim>\<open>Object\<close>; every other function is named as its key. No
  script of the application adds a property to the prototype.
\<close>

definition Object_prototype :: "string \<Rightarrow> js_object option" where
  "Object_prototype =
     map_of [(''constructor'', Function ''Object''),
             (''hasOwnProperty'', Function ''hasOwnProperty''),
             (''isPrototypeOf'', Function ''isPrototypeOf''),
             (''propertyIsEnumerable'', Function ''propertyIsEnumerable''),
             (''toLocaleString'', Function ''toLocaleString''),
             (''toString'', Function ''toString''),
             (''valueOf'', Function ''valueOf''),
             (''__defineGetter__'', Function ''__defineGetter__''),
             (''__defineSetter__'', Function ''__defineSetter__''),
             (''__lookupGetter__'', Function ''__lookupGetter__''),
             (''__lookupSetter__'', Function ''__lookupSetter__''),
             (''__proto__'', ObjectPrototype)]"

text \<open>
  The read \<^verbatim>\<open>ROLE_LEVELS[key]\<close> of lines 221, 243 and 270: an own property first, then
  the prototype, \<^verbatim>\<open>undefined\<close> when neither has the key.
\<close>

definition ROLE_LEVELS_get :: "string \<Rightarrow> js_value" where
  "ROLE_LEVELS_get key =
     (case ROLE_LEVELS key of
        Some level \<Rightarrow> JNumber level
      | None \<Rightarrow> (case Object_prototype key of Some obj \<Rightarrow> JObject obj | None \<Rightarrow> JUndefined))"

text \<open>
  The relational operators of JavaScript on such values. An object is first converted
  to a primitive: \<^verbatim>\<open>valueOf\<close> returns the object itself, so the result is the string
  of \<^verbatim>\<open>toString\<close>, the source text of a built-in function or \<^verbatim>\<open>[object Object]\<close>.
  (Engines differ in the white space of the source text after the parameter list; no
  comparison of two of these strings reaches it.) Two strings are compared by code
  units. Otherwise both operands are converted to numbers: \<^verbatim>\<open>undefined\<close> and each of
  these strings convert to NaN, and a comparison with NaN is undefined, \<open>None\<close> here.
\<close>

fun ToPrimitive :: "js_object \<Rightarrow> string" where
  "ToPrimitive (Function name) = ''function '' @ name @ ''() { [native code] }''"
| "ToPrimitive ObjectPrototype = ''[object Object]''"

fun string_lt :: "string \<Rightarrow> string \<Rightarrow> bool" where
  "string_lt [] [] = False"
| "string_lt [] (y # ys) = True"
| "string_lt (x # xs) [] = False"
| "string_lt (x # xs) (y # ys) =
     (if x = y then string_lt xs ys else (of_char x :: nat) < of_char y)"

fun IsLessThan :: "js_value \<Rightarrow> js_value \<Rightarrow> bool option" where
  "IsLessThan (JNumber a) (JNumber b) = Some (a < b)"
| "IsLessThan (JObject x) (JObject y) = Some (string_lt (ToPrimitive x) (ToPrimitive y))"
| "IsLessThan _ _ = None"

text \<open>
  \<^verbatim>\<open>a < b\<close>, \<^verbatim>\<open>a <= b\<close> and \<^verbatim>\<open>a > b\<close>: the second is true when \<^verbatim>\<open>b < a\<close> is
  false, and each is false when the comparison is undefined.
\<close>

definition js_lt :: "js_value \<Rightarrow> js_value \<Rightarrow> bool" where
  "js_lt a b = (IsLessThan a b = Some True)"

definition js_le :: "js_value \<Rightarrow> js_value \<Rightarrow> bool" where
  "js_le a b = (IsLessThan b a = Some False)"

definition js_gt :: "js_value \<Rightarrow> js_value \<Rightarrow> bool" where
  "js_gt a b = (IsLessThan b a = Some True)"

subsection \<open>The controls of a table row\<close>

text \<open>
  Lines 218 to 221: the role select of a row. \<open>loading\<close> is the state flag,
  \<open>isCurrentUser\<close> says that the row is the logged-in user's own,
  \<open>currentUserRole\<close> is the component's property and \<open>userRole\<close> is
  \<^verbatim>\<open>user.role\<close> of the row.
\<close>

definition isDropdownDisabled :: "bool \<Rightarrow> bool \<Rightarrow> string \<Rightarrow> string \<Rightarrow> bool" where
  "isDropdownDisabled loading isCurrentUser currentUserRole userRole =
     (loading \<or> isCurrentUser \<or>
      js_lt (ROLE_LEVELS_get currentUserRole) (ROLE_LEVELS_get userRole))"

text \<open>Lines 242 to 245: one option of the role select, for the candidate \<open>role\<close>.\<close>

definition optionDisabled :: "string \<Rightarrow> string \<Rightarrow> string \<Rightarrow> bool" where
  "optionDisabled currentUserRole userRole role =
     (js_gt (ROLE_LEVELS_get role) (ROLE_LEVELS_get currentUserRole) \<or>
      (userRole = ''superAdmin'' \<and> currentUserRole \<noteq> ''superAdmin''))"

text \<open>Lines 267 to 272: the delete button of a row.\<close>

definition deleteDisabled :: "bool \<Rightarrow> bool \<Rightarrow> string \<Rightarrow> string \<Rightarrow> bool" where
  "deleteDisabled loading isCurrentUser currentUserRole userRole =
     (loading \<or> isCurrentUser \<or>
      (js_le (ROLE_LEVELS_get currentUserRole) (ROLE_LEVELS_get userRole) \<and>
       currentUserRole \<noteq> ''superAdmin'') \<or>
      (userRole = ''superAdmin'' \<and> currentUserRole \<noteq> ''superAdmin''))"

subsection \<open>Users, component state, network\<close>

text \<open>
  A user object as the table reads it: \<^verbatim>\<open>_id\<close>, \<^verbatim>\<open>name\<close>, \<^verbatim>\<open>email\<close> and
  \<^verbatim>\<open>role\<close>. The record is extensible: whatever else the server sends with a user is
  the \<open>more\<close> part of \<open>'a user_scheme\<close>, which the spread of line 73 copies.
\<close>

record user =
  user_id :: string
  user_name :: string
  user_email :: string
  user_role :: string

text \<open>Lines 5 to 10: the six state variables and their initial values.\<close>

record 'a view_state =
  users :: "'a user_scheme list"
  loading :: bool
  error :: string
  message :: string
  viewingUserId :: "string option"
  viewingUserEmail :: "string option"

definition initial_state :: "'a view_state" where
  "initial_state =
     \<lparr>users = [], loading = False, error = [], message = [],
      viewingUserId = None, viewingUserEmail = None\<rparr>"

text \<open>
  The parsed body of a response, as far as the handlers read it: \<^verbatim>\<open>data.users\<close> and
  \<^verbatim>\<open>data.message\<close>, each \<open>None\<close> when the body does not have it.
\<close>

record 'a api_data =
  data_users :: "'a user_scheme list option"
  data_message :: "string option"

text \<open>
  How a request ends. \<open>Threw\<close>: an exception inside the \<^verbatim>\<open>try\<close> block (the fetch was
  rejected, or the body could not be parsed), which the \<^verbatim>\<open>catch\<close> block handles.
  \<open>Response ok data\<close>: a response arrived, with its \<^verbatim>\<open>response.ok\<close> flag and its
  parsed body.
\<close>

datatype 'a response = Threw | Response bool "'a api_data"

text \<open>The requests of the component, with the bearer token each carries.\<close>

datatype request =
    GET_users string
  | PUT_changeRole string string string
  | DELETE_user string string

text \<open>
  Truthiness of a string value of JavaScript. A property that is \<^verbatim>\<open>null\<close> or
  \<^verbatim>\<open>undefined\<close> is falsy like the empty string and differs from every role name like
  it, so the empty string stands for all three.
\<close>

definition truthy :: "string \<Rightarrow> bool" where
  "truthy v = (v \<noteq> [])"

text \<open>\<^verbatim>\<open>data.message || fallback\<close>: the fallback when the message is absent or empty.\<close>

definition js_or :: "string option \<Rightarrow> string \<Rightarrow> string" where
  "js_or v fallback = (case v of None \<Rightarrow> fallback | Some m \<Rightarrow> if truthy m then m else fallback)"

subsection \<open>Loading the roster\<close>

text \<open>
  Lines 27 to 51. \<open>fetchUsers_begin\<close> is the state once lines 28 to 30 have run, while
  the request is in flight; \<open>fetchUsers_settle\<close> is what the rest of the function does
  to it when the request has ended, the \<^verbatim>\<open>finally\<close> block last. \<open>fetchUsers\<close> is the
  whole call: the request it sends and the state it leaves.
\<close>

definition fetchUsers_begin :: "'a view_state \<Rightarrow> 'a view_state" where
  "fetchUsers_begin s = s\<lparr>loading := True, error := [], message := []\<rparr>"

definition fetchUsers_settle :: "'a response \<Rightarrow> 'a view_state \<Rightarrow> 'a view_state" where
  "fetchUsers_settle r s =
     (case r of
        Response ok d \<Rightarrow>
          if ok then s\<lparr>users := (case data_users d of None \<Rightarrow> [] | Some us \<Rightarrow> us)\<rparr>
          else s\<lparr>error := js_or (data_message d)
                    ''Failed to fetch users. Ensure you have permission.''\<rparr>
      | Threw \<Rightarrow>
          s\<lparr>error := ''Network error or server is unreachable while fetching users. Ensure your backend is running.''\<rparr>)
     \<lparr>loading := False\<rparr>"

definition fetchUsers :: "string \<Rightarrow> 'a response \<Rightarrow> 'a view_state \<Rightarrow> request list \<times> 'a view_state" where
  "fetchUsers authToken r s = ([GET_users authToken], fetchUsers_settle r (fetchUsers_begin s))"

subsection \<open>Changing a role\<close>

text \<open>
  Lines 54 to 84, split as above. The roster that line 72 maps over is the \<^verbatim>\<open>users\<close>
  of the render that created the handler, here the roster of the state the handler is
  called in: \<open>us\<close>.
\<close>

definition handleChangeRole_begin :: "'a view_state \<Rightarrow> 'a view_state" where
  "handleChangeRole_begin s = s\<lparr>loading := True, message := [], error := []\<rparr>"

definition handleChangeRole_settle ::
  "'a user_scheme list \<Rightarrow> string \<Rightarrow> string \<Rightarrow> string \<Rightarrow> 'a response \<Rightarrow> 'a view_state \<Rightarrow> 'a view_state" where
  "handleChangeRole_settle us userId email newRole r s =
     (case r of
        Response ok d \<Rightarrow>
          if ok then
            s\<lparr>message := js_or (data_message d)
                  (''Role for '' @ email @ '' updated to '' @ newRole @ ''.''),
              users := map (\<lambda>u. if user_id u = userId then u\<lparr>user_role := newRole\<rparr> else u) us\<rparr>
          else s\<lparr>error := js_or (data_message d)
                    ''Failed to change role. Check your permissions.''\<rparr>
      | Threw \<Rightarrow> s\<lparr>error := ''Network error or server is unreachable while changing role.''\<rparr>)
     \<lparr>loading := False\<rparr>"

definition handleChangeRole ::
  "string \<Rightarrow> string \<Rightarrow> string \<Rightarrow> string \<Rightarrow> 'a response \<Rightarrow> 'a view_state \<Rightarrow> request list \<times> 'a view_state" where
  "handleChangeRole authToken userId email newRole r s =
     ([PUT_changeRole authToken email newRole],
      handleChangeRole_settle (users s) userId email newRole r (handleChangeRole_begin s))"

subsection \<open>Deleting a user\<close>

text \<open>
  Lines 87 to 116. \<open>confirmed\<close> is the answer of \<^verbatim>\<open>window.confirm\<close>; when it is
  false the function returns at line 89.
\<close>

definition handleDeleteUser_begin :: "'a view_state \<Rightarrow> 'a view_state" where
  "handleDeleteUser_begin s = s\<lparr>loading := True, message := [], error := []\<rparr>"

definition handleDeleteUser_settle ::
  "'a user_scheme list \<Rightarrow> string \<Rightarrow> string \<Rightarrow> 'a response \<Rightarrow> 'a view_state \<Rightarrow> 'a view_state" where
  "handleDeleteUser_settle us userId userEmail r s =
     (case r of
        Response ok d \<Rightarrow>
          if ok then
            s\<lparr>message := js_or (data_message d)
                  (''User '' @ userEmail @ '' deleted successfully.''),
              users := filter (\<lambda>u. user_id u \<noteq> userId) us\<rparr>
          else s\<lparr>error := js_or (data_message d)
                    ''Failed to delete user. Check your permissions.''\<rparr>
      | Threw \<Rightarrow> s\<lparr>error := ''Network error or server is unreachable while deleting user.''\<rparr>)
     \<lparr>loading := False\<rparr>"

definition handleDeleteUser ::
  "string \<Rightarrow> bool \<Rightarrow> string \<Rightarrow> string \<Rightarrow> 'a response \<Rightarrow> 'a view_state \<Rightarrow> request list \<times> 'a view_state" where
  "handleDeleteUser authToken confirmed userId userEmail r s =
     (if \<not> confirmed then ([], s)
      else ([DELETE_user authToken userId],
            handleDeleteUser_settle (users s) userId userEmail r (handleDeleteUser_begin s)))"

subsection \<open>The to-do view of a user\<close>



definition handleBackToUsers :: "string \<Rightarrow> 'a response \<Rightarrow> 'a view_state \<Rightarrow> request list \<times> 'a view_state" where
  "handleBackToUsers authToken r s =
     fetchUsers authToken r (s\<lparr>viewingUserId := None, viewingUserEmail := None\<rparr>)"

subsection \<open>Session gate\<close>

text \<open>
  Lines 133 to 141: the effect that runs on mount and whenever \<^verbatim>\<open>authToken\<close> or
  \<^verbatim>\<open>currentUserRole\<close> changes.
\<close>

definition sessionEffect :: "string \<Rightarrow> string \<Rightarrow> 'a response \<Rightarrow> 'a view_state \<Rightarrow> request list \<times> 'a view_state" where
  "sessionEffect authToken currentUserRole r s =
     (if truthy authToken \<and>
         (currentUserRole = ''admin'' \<or> currentUserRole = ''superAdmin'' \<or>
          currentUserRole = ''manager'')
      then fetchUsers authToken r s
      else if truthy authToken \<and> truthy currentUserRole \<and> currentUserRole \<noteq> ''admin'' \<and>
              currentUserRole \<noteq> ''superAdmin'' \<and> currentUserRole \<noteq> ''manager''
      then ([], s\<lparr>error := ''You do not have sufficient administrative privileges to view this dashboard.''\<rparr>)
      else ([], s))"

text \<open>
  Lines 144 to 285: which of its four views the component returns. A row of the user
  list is rendered by \<open>renderRow\<close> below.
\<close>

datatype view = LoginNotice | AccessDenied | UserTodos | UserList

definition render :: "string \<Rightarrow> string \<Rightarrow> 'a view_state \<Rightarrow> view" where
  "render authToken currentUserRole s =
     (if \<not> truthy authToken then LoginNotice
      else if currentUserRole \<noteq> ''admin'' \<and> currentUserRole \<noteq> ''superAdmin'' \<and>
              currentUserRole \<noteq> ''manager'' then AccessDenied
      else if (case viewingUserId s of None \<Rightarrow> False | Some i \<Rightarrow> truthy i) then UserTodos
      else UserList)"

text \<open>
  Lines 211 to 278: the controls of one row. \<open>loggedInUserEmail\<close> is what
  \<^verbatim>\<open>localStorage.getItem\<close> returns, \<open>None\<close> for \<^verbatim>\<open>null\<close>.
\<close>

definition isCurrentUser :: "string option \<Rightarrow> 'a user_scheme \<Rightarrow> bool" where
  "isCurrentUser loggedInUserEmail u = (Some (user_email u) = loggedInUserEmail)"

record row_controls =
  select_disabled :: bool
  options_disabled :: "bool list"
  delete_disabled :: bool

definition renderRow :: "string option \<Rightarrow> string \<Rightarrow> 'a view_state \<Rightarrow> 'a user_scheme \<Rightarrow> row_controls" where
  "renderRow loggedInUserEmail currentUserRole s u =
     \<lparr>select_disabled =
        isDropdownDisabled (loading s) (isCurrentUser loggedInUserEmail u) currentUserRole
          (user_role u),
      options_disabled = map (optionDisabled currentUserRole (user_role u)) availableRoles,
      delete_disabled =
        deleteDisabled (loading s) (isCurrentUser loggedInUserEmail u) currentUserRole
          (user_role u)\<rparr>"

section \<open>Properties\<close>

subsection \<open>Role hierarchy\<close>

lemma in_availableRoles:
  "r \<in> set availableRoles \<longleftrightarrow>
     r = ''user'' \<or> r = ''moderator'' \<or> r = ''admin'' \<or> r = ''superAdmin'' \<or> r = ''manager''"
  by (simp add: availableRoles_def)

lemma ROLE_LEVELS_simps:
  "ROLE_LEVELS ''user'' = Some 0"
  "ROLE_LEVELS ''moderator'' = Some 1"
  "ROLE_LEVELS ''admin'' = Some 2"
  "ROLE_LEVELS ''superAdmin'' = Some 3"
  "ROLE_LEVELS ''manager'' = Some 4"
  by (simp_all add: ROLE_LEVELS_def)

lemma ROLE_LEVELS_enumerated:
  "r \<in> set availableRoles \<Longrightarrow>
     \<exists>n. ROLE_LEVELS r = Some n \<and> n < 5 \<and> availableRoles ! n = r"
  by (auto simp: in_availableRoles ROLE_LEVELS_simps availableRoles_def)

lemma ROLE_LEVELS_outside:
  "r \<notin> set availableRoles \<Longrightarrow> ROLE_LEVELS r = None"
  by (simp add: in_availableRoles ROLE_LEVELS_def)

lemma ROLE_LEVELS_get_own:
  "ROLE_LEVELS r = Some n \<Longrightarrow> ROLE_LEVELS_get r = JNumber n"
  by (simp add: ROLE_LEVELS_get_def)

lemma ROLE_LEVELS_get_undefined:
  "ROLE_LEVELS r = None \<Longrightarrow> Object_prototype r = None \<Longrightarrow> ROLE_LEVELS_get r = JUndefined"
  by (simp add: ROLE_LEVELS_get_def)

lemma js_compare_numbers:
  "js_lt (JNumber a) (JNumber b) = (a < b)"
  "js_le (JNumber a) (JNumber b) = (a \<le> b)"
  "js_gt (JNumber a) (JNumber b) = (a > b)"
  by (auto simp: js_lt_def js_le_def js_gt_def)

lemma js_compare_undefined:
  "\<not> js_lt JUndefined v" "\<not> js_lt v JUndefined"
  "\<not> js_le JUndefined v" "\<not> js_le v JUndefined"
  "\<not> js_gt JUndefined v" "\<not> js_gt v JUndefined"
  by (cases v; simp add: js_lt_def js_le_def js_gt_def)+

text \<open>
  C1. For acting role \<open>r1\<close> and target role \<open>r2\<close> of the enumeration, both have a
  level, which is the role's position in the enumeration; with no request in flight and
  a row that is not the acting user's, the role select is disabled exactly when the
  level of \<open>r1\<close> is strictly below the level of \<open>r2\<close>; with a request in flight, or
  on the acting user's own row, it is disabled.
\<close>

theorem isDropdownDisabled_enumeration:
  assumes "r1 \<in> set availableRoles" and "r2 \<in> set availableRoles"
  shows "\<exists>l1 l2. ROLE_LEVELS r1 = Some l1 \<and> ROLE_LEVELS r2 = Some l2 \<and>
           l1 < 5 \<and> l2 < 5 \<and> availableRoles ! l1 = r1 \<and> availableRoles ! l2 = r2 \<and>
           isDropdownDisabled False False r1 r2 = (l1 < l2) \<and>
           isDropdownDisabled True self r1 r2 \<and>
           isDropdownDisabled busy True r1 r2"
proof -
  from assms obtain l1 l2 where l: "ROLE_LEVELS r1 = Some l1" "ROLE_LEVELS r2 = Some l2"
    and p: "l1 < 5" "availableRoles ! l1 = r1" "l2 < 5" "availableRoles ! l2 = r2"
    using ROLE_LEVELS_enumerated by blast
  then show ?thesis
    by (simp add: isDropdownDisabled_def ROLE_LEVELS_get_own js_compare_numbers)
qed

theorem isDropdownDisabled_enumeration_witness:
  "isDropdownDisabled False False ''admin'' ''manager'' \<and>
   \<not> isDropdownDisabled False False ''manager'' ''admin'' \<and>
   \<not> isDropdownDisabled False False ''admin'' ''admin'' \<and>
   isDropdownDisabled True False ''manager'' ''user'' \<and>
   isDropdownDisabled False True ''manager'' ''user''"
proof -
  have a: "''admin'' \<in> set availableRoles" and m: "''manager'' \<in> set availableRoles"
    and u: "''user'' \<in> set availableRoles"
    by (simp_all add: availableRoles_def)
  show ?thesis
    using isDropdownDisabled_enumeration [OF a m]
      isDropdownDisabled_enumeration [OF m a]
      isDropdownDisabled_enumeration [OF a a]
      isDropdownDisabled_enumeration [OF m u, of False False]
    by (auto simp: ROLE_LEVELS_simps)
qed

text \<open>
  C2. For acting and target roles of the enumeration, the delete button is disabled
  exactly when a request is in flight, or the row is the acting user's own, or the
  acting level is at most the target level and the acting role is not
  \<^verbatim>\<open>superAdmin\<close>, or the target role is \<^verbatim>\<open>superAdmin\<close> and the acting role is not.
  For a \<^verbatim>\<open>manager\<close> (level 4) acting on a \<^verbatim>\<open>superAdmin\<close> (level 3) the level
  clause is false and the clause on the target's role is true, so the button is
  disabled.
\<close>

theorem deleteDisabled_enumeration:
  assumes "r1 \<in> set availableRoles" and "r2 \<in> set availableRoles"
  shows "\<exists>l1 l2. ROLE_LEVELS r1 = Some l1 \<and> ROLE_LEVELS r2 = Some l2 \<and>
           l1 < 5 \<and> l2 < 5 \<and> availableRoles ! l1 = r1 \<and> availableRoles ! l2 = r2 \<and>
           deleteDisabled busy self r1 r2 =
             (busy \<or> self \<or> (l1 \<le> l2 \<and> r1 \<noteq> ''superAdmin'') \<or>
              (r2 = ''superAdmin'' \<and> r1 \<noteq> ''superAdmin'')) \<and>
           ROLE_LEVELS ''manager'' = Some 4 \<and> ROLE_LEVELS ''superAdmin'' = Some 3 \<and>
           \<not> js_le (ROLE_LEVELS_get ''manager'') (ROLE_LEVELS_get ''superAdmin'') \<and>
           deleteDisabled False False ''manager'' ''superAdmin''"
proof -
  from assms obtain l1 l2 where l: "ROLE_LEVELS r1 = Some l1" "ROLE_LEVELS r2 = Some l2"
    and p: "l1 < 5" "availableRoles ! l1 = r1" "l2 < 5" "availableRoles ! l2 = r2"
    using ROLE_LEVELS_enumerated by blast
  have "deleteDisabled False False ''manager'' ''superAdmin''"
    by (simp add: deleteDisabled_def)
  with l p show ?thesis
    by (simp add: deleteDisabled_def ROLE_LEVELS_simps ROLE_LEVELS_get_own js_compare_numbers)
qed

theorem deleteDisabled_enumeration_witness:
  "deleteDisabled False False ''admin'' ''admin'' \<and>
   \<not> deleteDisabled False False ''admin'' ''moderator'' \<and>
   \<not> deleteDisabled False False ''superAdmin'' ''manager'' \<and>
   deleteDisabled False False ''manager'' ''superAdmin''"
proof -
  have a: "''admin'' \<in> set availableRoles" and m: "''manager'' \<in> set availableRoles"
    and s: "''superAdmin'' \<in> set availableRoles" and d: "''moderator'' \<in> set availableRoles"
    by (simp_all add: availableRoles_def)
  show ?thesis
    using deleteDisabled_enumeration [OF a a, of False False]
      deleteDisabled_enumeration [OF a d, of False False]
      deleteDisabled_enumeration [OF s m, of False False]
    by (auto simp: ROLE_LEVELS_simps)
qed

text \<open>
  C3. For acting, target and candidate roles of the enumeration, the option of the
  candidate is disabled exactly when the candidate's level is above the acting level, or
  the target role is \<^verbatim>\<open>superAdmin\<close> and the acting role is not. For an acting
  \<^verbatim>\<open>admin\<close> on a \<^verbatim>\<open>moderator\<close> row the options \<^verbatim>\<open>user\<close>, \<^verbatim>\<open>moderator\<close> and
  \<^verbatim>\<open>admin\<close> are enabled, \<^verbatim>\<open>superAdmin\<close> and \<^verbatim>\<open>manager\<close> are disabled.
\<close>

theorem optionDisabled_enumeration:
  assumes "r1 \<in> set availableRoles" and "r2 \<in> set availableRoles"
    and "r \<in> set availableRoles"
  shows "\<exists>l1 l. ROLE_LEVELS r1 = Some l1 \<and> ROLE_LEVELS r = Some l \<and>
           l1 < 5 \<and> l < 5 \<and> availableRoles ! l1 = r1 \<and> availableRoles ! l = r \<and>
           optionDisabled r1 r2 r =
             (l > l1 \<or> (r2 = ''superAdmin'' \<and> r1 \<noteq> ''superAdmin'')) \<and>
           map (optionDisabled ''admin'' ''moderator'') availableRoles =
             [False, False, False, True, True]"
proof -
  from assms obtain l1 l where l: "ROLE_LEVELS r1 = Some l1" "ROLE_LEVELS r = Some l"
    and p: "l1 < 5" "availableRoles ! l1 = r1" "l < 5" "availableRoles ! l = r"
    using ROLE_LEVELS_enumerated by blast
  have "map (optionDisabled ''admin'' ''moderator'') availableRoles =
          [False, False, False, True, True]"
    by (simp add: availableRoles_def optionDisabled_def ROLE_LEVELS_simps ROLE_LEVELS_get_own
        js_compare_numbers)
  with l p show ?thesis
    by (simp add: optionDisabled_def ROLE_LEVELS_get_own js_compare_numbers)
qed

theorem optionDisabled_enumeration_witness:
  "optionDisabled ''admin'' ''moderator'' ''manager'' \<and>
   \<not> optionDisabled ''admin'' ''moderator'' ''admin'' \<and>
   optionDisabled ''manager'' ''superAdmin'' ''user'' \<and>
   \<not> optionDisabled ''superAdmin'' ''superAdmin'' ''user''"
proof -
  have a: "''admin'' \<in> set availableRoles" and m: "''manager'' \<in> set availableRoles"
    and s: "''superAdmin'' \<in> set availableRoles" and d: "''moderator'' \<in> set availableRoles"
    and u: "''user'' \<in> set availableRoles"
    by (simp_all add: availableRoles_def)
  show ?thesis
    using optionDisabled_enumeration [OF a d m]
      optionDisabled_enumeration [OF a d a]
      optionDisabled_enumeration [OF m s u]
      optionDisabled_enumeration [OF s s u]
    by (auto simp: ROLE_LEVELS_simps)
qed

text \<open>
  C10, as the code has it. For an acting role that is outside the enumeration and is
  not the name of a member inherited from \<^verbatim>\<open>Object.prototype\<close> (the empty string is
  such a role), the level lookup is \<^verbatim>\<open>undefined\<close> and each of the three comparisons
  with it is false, whatever the other operand; so, on a row that is not the acting
  user's and with no request in flight, the role select is enabled, the level clause of
  the delete button is false, and the delete button is disabled exactly on a
  \<^verbatim>\<open>superAdmin\<close> row.
\<close>

theorem unknown_acting_role:
  assumes "currentUserRole \<notin> set availableRoles"
    and "Object_prototype currentUserRole = None"
  shows "ROLE_LEVELS currentUserRole = None \<and>
         ROLE_LEVELS_get currentUserRole = JUndefined \<and>
         \<not> js_lt (ROLE_LEVELS_get currentUserRole) (ROLE_LEVELS_get userRole) \<and>
         \<not> js_lt (ROLE_LEVELS_get userRole) (ROLE_LEVELS_get currentUserRole) \<and>
         \<not> js_le (ROLE_LEVELS_get currentUserRole) (ROLE_LEVELS_get userRole) \<and>
         \<not> js_le (ROLE_LEVELS_get userRole) (ROLE_LEVELS_get currentUserRole) \<and>
         \<not> js_gt (ROLE_LEVELS_get currentUserRole) (ROLE_LEVELS_get userRole) \<and>
         \<not> js_gt (ROLE_LEVELS_get userRole) (ROLE_LEVELS_get currentUserRole) \<and>
         \<not> isDropdownDisabled False False currentUserRole userRole \<and>
         deleteDisabled False False currentUserRole userRole = (userRole = ''superAdmin'')"
proof -
  have n: "ROLE_LEVELS currentUserRole = None"
    using assms(1) by (rule ROLE_LEVELS_outside)
  then have u: "ROLE_LEVELS_get currentUserRole = JUndefined"
    using assms(2) by (rule ROLE_LEVELS_get_undefined)
  have s: "currentUserRole \<noteq> ''superAdmin''"
    using assms(1) by (auto simp: in_availableRoles)
  show ?thesis
    by (simp add: n u s isDropdownDisabled_def deleteDisabled_def js_compare_undefined)
qed

theorem unknown_acting_role_witness:
  "ROLE_LEVELS_get [] = JUndefined \<and>
   \<not> isDropdownDisabled False False [] ''manager'' \<and>
   \<not> deleteDisabled False False [] ''manager'' \<and>
   \<not> isDropdownDisabled False False ''superadmin'' ''toString'' \<and>
   deleteDisabled False False ''superadmin'' ''superAdmin''"
proof -
  have e: "[] \<notin> set availableRoles" and l: "''superadmin'' \<notin> set availableRoles"
    by (simp_all add: availableRoles_def)
  have pe: "Object_prototype [] = None" and pl: "Object_prototype ''superadmin'' = None"
    by (simp_all add: Object_prototype_def)
  show ?thesis
    using unknown_acting_role [OF e pe, of "''manager''"]
      unknown_acting_role [OF l pl, of "''superAdmin''"]
      unknown_acting_role [OF l pl, of "''toString''"]
    by simp
qed

text \<open>
  C10 as stated fails for an acting role that names an inherited member.
  \<^verbatim>\<open>constructor\<close> is outside the enumeration, yet its lookup is the function
  \<^verbatim>\<open>Object\<close>, not \<^verbatim>\<open>undefined\<close>. Against a row whose role is \<^verbatim>\<open>toString\<close> the
  comparison of line 221 is one of two strings and is true, so the role select is
  disabled; against a row whose role is \<^verbatim>\<open>constructor\<close> the comparison of line 270 is
  true, so the level clause disables the delete button of a row that is not a
  \<^verbatim>\<open>superAdmin\<close> row.
\<close>

theorem unknown_acting_role_counterexample:
  "''constructor'' \<notin> set availableRoles \<and>
   ROLE_LEVELS_get ''constructor'' = JObject (Function ''Object'') \<and>
   js_lt (ROLE_LEVELS_get ''constructor'') (ROLE_LEVELS_get ''toString'') \<and>
   isDropdownDisabled False False ''constructor'' ''toString'' \<and>
   js_le (ROLE_LEVELS_get ''constructor'') (ROLE_LEVELS_get ''constructor'') \<and>
   ''constructor'' \<noteq> ''superAdmin'' \<and>
   deleteDisabled False False ''constructor'' ''constructor''"
proof -
  have c: "ROLE_LEVELS_get ''constructor'' = JObject (Function ''Object'')"
    by (simp add: ROLE_LEVELS_get_def ROLE_LEVELS_def Object_prototype_def)
  have t: "ROLE_LEVELS_get ''toString'' = JObject (Function ''toString'')"
    by (simp add: ROLE_LEVELS_get_def ROLE_LEVELS_def Object_prototype_def)
  have lt: "js_lt (JObject (Function ''Object'')) (JObject (Function ''toString''))"
    by (simp add: js_lt_def)
  have le: "js_le (JObject (Function ''Object'')) (JObject (Function ''Object''))"
    by (simp add: js_le_def)
  show ?thesis
    by (simp add: c t lt le isDropdownDisabled_def deleteDisabled_def availableRoles_def)
qed

subsection \<open>Session gate\<close>

text \<open>
  C4, as the code has it. With a token present and a role other than \<^verbatim>\<open>admin\<close>,
  \<^verbatim>\<open>superAdmin\<close> and \<^verbatim>\<open>manager\<close>, the component renders the access-denied view
  and the effect sends no request; the effect sets the error message when the role is a
  non-empty string and leaves the state as it is when the role is empty.
\<close>

theorem sessionEffect_denied:
  assumes "truthy authToken"
    and "currentUserRole \<notin> {''admin'', ''superAdmin'', ''manager''}"
  shows "render authToken currentUserRole s = AccessDenied \<and>
         fst (sessionEffect authToken currentUserRole r s) = [] \<and>
         snd (sessionEffect authToken currentUserRole r s) =
           (if truthy currentUserRole
            then s\<lparr>error := ''You do not have sufficient administrative privileges to view this dashboard.''\<rparr>
            else s)"
  using assms by (simp add: render_def sessionEffect_def truthy_def)

theorem sessionEffect_denied_witness:
  "render ''t0k'' ''moderator'' (initial_state :: unit view_state) = AccessDenied \<and>
   sessionEffect ''t0k'' ''moderator'' Threw (initial_state :: unit view_state) =
     ([], initial_state\<lparr>error := ''You do not have sufficient administrative privileges to view this dashboard.''\<rparr>)"
proof -
  have t: "truthy ''t0k''"
    by (simp add: truthy_def)
  have m: "''moderator'' \<notin> {''admin'', ''superAdmin'', ''manager''}"
    by simp
  have "truthy ''moderator''"
    by (simp add: truthy_def)
  then show ?thesis
    using sessionEffect_denied [OF t m, of "initial_state :: unit view_state" Threw]
    by (simp add: prod_eq_iff)
qed

text \<open>
  C4 as stated fails for the empty role: a token is present, the role is none of the
  three, the access-denied view is rendered and nothing is fetched, but no error message
  is set.
\<close>

theorem sessionEffect_denied_counterexample:
  "truthy ''t0k'' \<and> [] \<notin> {''admin'', ''superAdmin'', ''manager''} \<and>
   render ''t0k'' [] (initial_state :: unit view_state) = AccessDenied \<and>
   fst (sessionEffect ''t0k'' [] Threw (initial_state :: unit view_state)) = [] \<and>
   error (snd (sessionEffect ''t0k'' [] Threw (initial_state :: unit view_state))) = []"
  by (simp add: truthy_def render_def sessionEffect_def initial_state_def)

subsection \<open>Roster updates\<close>

lemma split_roster:
  assumes "distinct (map user_id us)" and "userId \<in> user_id ` set us"
  obtains pre u post where "us = pre @ u # post" and "user_id u = userId"
    and "\<forall>v \<in> set pre. user_id v \<noteq> userId" and "\<forall>v \<in> set post. user_id v \<noteq> userId"
proof -
  from assms(2) obtain u where "u \<in> set us" and u: "user_id u = userId"
    by auto
  then obtain pre post where us: "us = pre @ u # post"
    by (auto dest: split_list)
  with assms(1) u have "\<forall>v \<in> set pre. user_id v \<noteq> userId"
    and "\<forall>v \<in> set post. user_id v \<noteq> userId"
    by (auto simp: image_iff)
  with us u show thesis
    by (rule that)
qed

lemma map_role_unique:
  assumes "\<forall>v \<in> set pre. user_id v \<noteq> userId" and "\<forall>v \<in> set post. user_id v \<noteq> userId"
    and "user_id u = userId"
  shows "map (\<lambda>v. if user_id v = userId then v\<lparr>user_role := newRole\<rparr> else v) (pre @ u # post) =
         pre @ u\<lparr>user_role := newRole\<rparr> # post"
  using assms by (simp add: map_idI)

lemma filter_id_unique:
  assumes "\<forall>v \<in> set pre. user_id v \<noteq> userId" and "\<forall>v \<in> set post. user_id v \<noteq> userId"
    and "user_id u = userId"
  shows "filter (\<lambda>v. user_id v \<noteq> userId) (pre @ u # post) = pre @ post"
  using assms by simp

text \<open>
  C5. In a roster whose identifiers are pairwise distinct and which has an entry with
  identifier \<open>userId\<close>, a role change the server accepts replaces that entry by the same
  entry with its role set to \<open>newRole\<close> (every other field of it as before), leaves all
  entries before and after it as they were, and sets a non-empty success message; the
  error stays empty and the loading flag ends false.
\<close>

theorem handleChangeRole_success:
  assumes "distinct (map user_id (users s))" and "userId \<in> user_id ` set (users s)"
  shows "\<exists>pre u post.
           users s = pre @ u # post \<and> user_id u = userId \<and>
           users (snd (handleChangeRole authToken userId email newRole (Response True d) s)) =
             pre @ u\<lparr>user_role := newRole\<rparr> # post \<and>
           message (snd (handleChangeRole authToken userId email newRole (Response True d) s)) =
             js_or (data_message d) (''Role for '' @ email @ '' updated to '' @ newRole @ ''.'') \<and>
           message (snd (handleChangeRole authToken userId email newRole (Response True d) s)) \<noteq> [] \<and>
           error (snd (handleChangeRole authToken userId email newRole (Response True d) s)) = [] \<and>
           loading (snd (handleChangeRole authToken userId email newRole (Response True d) s)) = False"
proof -
  from assms obtain pre u post where us: "users s = pre @ u # post" and u: "user_id u = userId"
    and pre: "\<forall>v \<in> set pre. user_id v \<noteq> userId" and post: "\<forall>v \<in> set post. user_id v \<noteq> userId"
    by (rule split_roster)
  let ?s' = "snd (handleChangeRole authToken userId email newRole (Response True d) s)"
  have roster: "users ?s' = pre @ u\<lparr>user_role := newRole\<rparr> # post"
    using map_role_unique [OF pre post u, of newRole]
    by (simp add: handleChangeRole_def handleChangeRole_settle_def us)
  have msg: "message ?s' =
      js_or (data_message d) (''Role for '' @ email @ '' updated to '' @ newRole @ ''.'')"
    by (simp add: handleChangeRole_def handleChangeRole_settle_def)
  have "js_or (data_message d) (''Role for '' @ email @ '' updated to '' @ newRole @ ''.'') \<noteq> []"
    by (simp add: js_or_def truthy_def split: option.split)
  with msg have nonempty: "message ?s' \<noteq> []"
    by simp
  have rest: "error ?s' = []" "loading ?s' = False"
    by (simp_all add: handleChangeRole_def handleChangeRole_settle_def handleChangeRole_begin_def)
  from us u roster msg nonempty rest show ?thesis
    by blast
qed

theorem handleChangeRole_success_witness:
  "users (snd (handleChangeRole ''t0k'' ''b2'' ''bob@x.org'' ''admin''
      (Response True \<lparr>data_users = None, data_message = None\<rparr>)
      (initial_state\<lparr>users :=
         [\<lparr>user_id = ''a1'', user_name = ''Ann'', user_email = ''ann@x.org'', user_role = ''manager''\<rparr>,
          \<lparr>user_id = ''b2'', user_name = ''Bob'', user_email = ''bob@x.org'', user_role = ''user''\<rparr>,
          \<lparr>user_id = ''c3'', user_name = ''Cy'', user_email = ''cy@x.org'', user_role = ''user''\<rparr>]\<rparr>))) =
     [\<lparr>user_id = ''a1'', user_name = ''Ann'', user_email = ''ann@x.org'', user_role = ''manager''\<rparr>,
      \<lparr>user_id = ''b2'', user_name = ''Bob'', user_email = ''bob@x.org'', user_role = ''admin''\<rparr>,
      \<lparr>user_id = ''c3'', user_name = ''Cy'', user_email = ''cy@x.org'', user_role = ''user''\<rparr>] \<and>
   message (snd (handleChangeRole ''t0k'' ''b2'' ''bob@x.org'' ''admin''
      (Response True \<lparr>data_users = None, data_message = None\<rparr>)
      (initial_state\<lparr>users :=
         [\<lparr>user_id = ''a1'', user_name = ''Ann'', user_email = ''ann@x.org'', user_role = ''manager''\<rparr>,
          \<lparr>user_id = ''b2'', user_name = ''Bob'', user_email = ''bob@x.org'', user_role = ''user''\<rparr>,
          \<lparr>user_id = ''c3'', user_name = ''Cy'', user_email = ''cy@x.org'', user_role = ''user''\<rparr>]\<rparr>))) =
     ''Role for bob@x.org updated to admin.''"
proof -
  let ?s = "initial_state\<lparr>users :=
         [\<lparr>user_id = ''a1'', user_name = ''Ann'', user_email = ''ann@x.org'', user_role = ''manager''\<rparr>,
          \<lparr>user_id = ''b2'', user_name = ''Bob'', user_email = ''bob@x.org'', user_role = ''user''\<rparr>,
          \<lparr>user_id = ''c3'', user_name = ''Cy'', user_email = ''cy@x.org'', user_role = ''user''\<rparr>]\<rparr>"
  have d: "distinct (map user_id (users ?s))"
    by simp
  have m: "''b2'' \<in> user_id ` set (users ?s)"
    by simp
  show ?thesis
    using handleChangeRole_success [OF d m, of "''t0k''" "''bob@x.org''" "''admin''"
        "\<lparr>data_users = None, data_message = None\<rparr>"]
    by (auto simp: Cons_eq_append_conv js_or_def)
qed

text \<open>
  C6. In a roster whose identifiers are pairwise distinct and which has an entry with
  identifier \<open>userId\<close>, a confirmed delete the server accepts removes that one entry and
  keeps the entries before and after it, in their order.
\<close>

theorem handleDeleteUser_success:
  assumes "distinct (map user_id (users s))" and "userId \<in> user_id ` set (users s)"
  shows "\<exists>pre u post.
           users s = pre @ u # post \<and> user_id u = userId \<and>
           users (snd (handleDeleteUser authToken True userId userEmail (Response True d) s)) =
             pre @ post \<and>
           userId \<notin> user_id ` set (pre @ post) \<and>
           length (users (snd (handleDeleteUser authToken True userId userEmail (Response True d) s))) + 1 =
             length (users s)"
proof -
  from assms obtain pre u post where us: "users s = pre @ u # post" and u: "user_id u = userId"
    and pre: "\<forall>v \<in> set pre. user_id v \<noteq> userId" and post: "\<forall>v \<in> set post. user_id v \<noteq> userId"
    by (rule split_roster)
  have "users (snd (handleDeleteUser authToken True userId userEmail (Response True d) s)) =
          pre @ post"
    using filter_id_unique [OF pre post u]
    by (simp add: handleDeleteUser_def handleDeleteUser_settle_def us)
  moreover have "userId \<notin> user_id ` set (pre @ post)"
    using pre post by auto
  ultimately show ?thesis
    using us u by (intro exI [of _ pre] exI [of _ u] exI [of _ post]) simp
qed

theorem handleDeleteUser_success_witness:
  "users (snd (handleDeleteUser ''t0k'' True ''b2'' ''bob@x.org''
      (Response True \<lparr>data_users = None, data_message = Some ''User deleted''\<rparr>)
      (initial_state\<lparr>users :=
         [\<lparr>user_id = ''a1'', user_name = ''Ann'', user_email = ''ann@x.org'', user_role = ''manager''\<rparr>,
          \<lparr>user_id = ''b2'', user_name = ''Bob'', user_email = ''bob@x.org'', user_role = ''user''\<rparr>,
          \<lparr>user_id = ''c3'', user_name = ''Cy'', user_email = ''cy@x.org'', user_role = ''user''\<rparr>]\<rparr>))) =
     [\<lparr>user_id = ''a1'', user_name = ''Ann'', user_email = ''ann@x.org'', user_role = ''manager''\<rparr>,
      \<lparr>user_id = ''c3'', user_name = ''Cy'', user_email = ''cy@x.org'', user_role = ''user''\<rparr>]"
proof -
  let ?s = "initial_state\<lparr>users :=
         [\<lparr>user_id = ''a1'', user_name = ''Ann'', user_email = ''ann@x.org'', user_role = ''manager''\<rparr>,
          \<lparr>user_id = ''b2'', user_name = ''Bob'', user_email = ''bob@x.org'', user_role = ''user''\<rparr>,
          \<lparr>user_id = ''c3'', user_name = ''Cy'', user_email = ''cy@x.org'', user_role = ''user''\<rparr>]\<rparr>"
  have d: "distinct (map user_id (users ?s))"
    by simp
  have m: "''b2'' \<in> user_id ` set (users ?s)"
    by simp
  show ?thesis
    using handleDeleteUser_success [OF d m, of "''t0k''" "''bob@x.org''"
        "\<lparr>data_users = None, data_message = Some ''User deleted''\<rparr>"]
    by (auto simp: Cons_eq_append_conv)
qed

subsection \<open>Declined confirmation\<close>

text \<open>
  C7. When the confirmation prompt is declined, the delete handler sends no request and
  returns the state it was called in: roster, loading flag, error, message and viewed
  user are all as before.
\<close>

theorem handleDeleteUser_declined:
  "handleDeleteUser authToken False userId userEmail r s = ([], s)"
  by (simp add: handleDeleteUser_def)

subsection \<open>Error and message\<close>








subsection \<open>Transport failure of the first load\<close>

text \<open>
  C9. The first \<^verbatim>\<open>fetchUsers\<close> after mount, called in the initial state by the effect
  of an admitted role: when the request throws, the roster is the empty list it was,
  the error is the non-empty network message and the loading flag is false.
\<close>

theorem fetchUsers_first_load_threw:
  assumes "truthy authToken"
    and "currentUserRole \<in> {''admin'', ''superAdmin'', ''manager''}"
  shows "sessionEffect authToken currentUserRole Threw (initial_state :: 'a view_state) =
           fetchUsers authToken Threw (initial_state :: 'a view_state) \<and>
         fetchUsers authToken Threw (initial_state :: 'a view_state) =
           ([GET_users authToken],
            (initial_state :: 'a view_state)\<lparr>error := ''Network error or server is unreachable while fetching users. Ensure your backend is running.''\<rparr>) \<and>
         users (snd (fetchUsers authToken Threw (initial_state :: 'a view_state))) = [] \<and>
         users (initial_state :: 'a view_state) = [] \<and>
         error (snd (fetchUsers authToken Threw (initial_state :: 'a view_state))) \<noteq> [] \<and>
         loading (snd (fetchUsers authToken Threw (initial_state :: 'a view_state))) = False"
proof -
  have "sessionEffect authToken currentUserRole Threw (initial_state :: 'a view_state) =
          fetchUsers authToken Threw (initial_state :: 'a view_state)"
    using assms by (auto simp: sessionEffect_def)
  then show ?thesis
    by (simp add: fetchUsers_def fetchUsers_begin_def fetchUsers_settle_def initial_state_def)
qed

theorem fetchUsers_first_load_threw_witness:
  "users (snd (sessionEffect ''t0k'' ''admin'' Threw (initial_state :: unit view_state))) = [] \<and>
   error (snd (sessionEffect ''t0k'' ''admin'' Threw (initial_state :: unit view_state))) =
     ''Network error or server is unreachable while fetching users. Ensure your backend is running.'' \<and>
   loading (snd (sessionEffect ''t0k'' ''admin'' Threw (initial_state :: unit view_state))) = False \<and>
   fst (sessionEffect ''t0k'' ''admin'' Threw (initial_state :: unit view_state)) =
     [GET_users ''t0k'']"
proof -
  have t: "truthy ''t0k''"
    by (simp add: truthy_def)
  have a: "''admin'' \<in> {''admin'', ''superAdmin'', ''manager''}"
    by simp
  show ?thesis
    using fetchUsers_first_load_threw [OF t a, where ?'a = unit]
    by (simp add: initial_state_def)
qed

end
